theory Spec2Isabelle
  imports Main
begin

section \<open>Data model\<close>

text \<open>
  The package \<open>gqlopencensus\<close> (file \<open>options.go\<close>) configures which attributes are attached
  to the trace spans of a GraphQL server. The types of the GraphQL engine and of the tracing
  library are external to the repository; only the parts that \<open>options.go\<close> reads are kept.
\<close>

text \<open>
  Modelled from the spec: \<open>trace.Attribute\<close> of the tracing library, a key/value pair with a
  string key and a typed value. \<open>options.go\<close> builds attributes with \<open>trace.StringAttribute\<close>
  only; producers supplied by a caller may also build the boolean and integer kinds.
\<close>

datatype Attribute =
    StringAttribute string string
  | BoolAttribute string bool
  | Int64Attribute string int

fun attribute_key :: "Attribute \<Rightarrow> string" where
  "attribute_key (StringAttribute k v) = k"
| "attribute_key (BoolAttribute k b) = k"
| "attribute_key (Int64Attribute k i) = k"

text \<open>
  Modelled from the spec: the parsed operation node (\<open>ast.OperationDefinition\<close>), with its
  explicit name and its operation kind. The kind is a string type in the engine
  (\<open>"query"\<close>, \<open>"mutation"\<close>, \<open>"subscription"\<close>), so \<open>string(ctx.Operation.Operation)\<close> is the
  identity on the characters.
\<close>

record OperationDefinition =
  opdef_Operation :: string
  opdef_Name :: string

text \<open>
  Modelled from the spec: the operation context (\<open>graphql.OperationContext\<close>): raw query
  text, raw operation name, variable bindings and the parsed operation node, a pointer that
  may be nil. The bound values have the dynamic type \<open>interface{}\<close>; they are the type
  parameter \<open>'v\<close>.
\<close>

record 'v OperationContext =
  RawQuery :: string
  Variables :: "string \<rightharpoonup> 'v"
  OperationName :: string
  Operation :: "OperationDefinition option"

text \<open>
  Modelled from the spec: the field context (\<open>graphql.FieldContext\<close>): the collected field,
  of which \<open>options.go\<close> reads the name, and the resolved arguments.
\<close>

record CollectedField =
  field_Name :: string

record 'v FieldContext =
  Field :: CollectedField
  Args :: "string \<rightharpoonup> 'v"

type_synonym 'v FieldAttributer = "'v FieldContext \<Rightarrow> Attribute list"

type_synonym 'v OperationAttributer = "'v OperationContext \<Rightarrow> Attribute list"

text \<open>The struct \<open>config\<close>.\<close>

record 'v config =
  fieldAttributers :: "'v FieldAttributer list"
  operationAttributers :: "'v OperationAttributer list"
  onlyMethods :: bool

text \<open>An \<open>Option\<close> is a \<open>func(*config)\<close>: it updates the configuration it is given.\<close>

type_synonym 'v Option = "'v config \<Rightarrow> 'v config"

section \<open>Operation name\<close>

text \<open>
  \<open>operationName\<close> assigns the named result \<open>opName\<close> up to three times; each \<open>let\<close> below is
  one of the three \<open>if\<close> statements, in the order of the source. \<open>opName\<close> starts as the
  empty string, the zero value of the named result.
\<close>

definition operationName :: "'v OperationContext \<Rightarrow> string" where
  "operationName ctx =
     (let opName = [];
          opName = (case Operation ctx of
                      Some node \<Rightarrow> opdef_Name node
                    | None \<Rightarrow> opName);
          opName = (case Operation ctx of
                      Some node \<Rightarrow> if opName = [] then opdef_Operation node else opName
                    | None \<Rightarrow> opName);
          opName = (if opName = [] then OperationName ctx else opName)
      in opName)"

text \<open>
  The fallback chain in the words of the specification: the candidates in order (the node's
  name and the node's kind when there is a node, then the raw operation name), and the
  first non-empty one wins; the empty string when there is none.
\<close>

fun first_non_empty :: "string list \<Rightarrow> string" where
  "first_non_empty [] = []"
| "first_non_empty (s # rest) = (if s = [] then first_non_empty rest else s)"

definition name_candidates :: "'v OperationContext \<Rightarrow> string list" where
  "name_candidates ctx =
     (case Operation ctx of
        Some node \<Rightarrow> [opdef_Name node, opdef_Operation node, OperationName ctx]
      | None \<Rightarrow> [OperationName ctx])"

section \<open>Constant producers\<close>

text \<open>\<open>FieldAttribute\<close> and \<open>OperationAttribute\<close>: closures that ignore the context.\<close>

definition FieldAttribute :: "string \<Rightarrow> string \<Rightarrow> 'v FieldAttributer" where
  "FieldAttribute key val = (\<lambda>_. [StringAttribute key val])"

definition OperationAttribute :: "string \<Rightarrow> string \<Rightarrow> 'v OperationAttributer" where
  "OperationAttribute key val = (\<lambda>_. [StringAttribute key val])"

section \<open>Attribute composition\<close>

text \<open>
  The methods \<open>fieldAttributes\<close> and \<open>operationAttributes\<close> have a value receiver: \<open>c\<close> is
  a local of the method, beside \<open>attrs\<close>. The state of the \<open>range\<close> loop is the pair of the
  two locals; one iteration calls the producer at hand on the context and appends what it
  returns to \<open>attrs\<close>. \<open>make([]trace.Attribute, 0, 10)\<close> is the empty sequence; its capacity
  is not observable. Producers are pure functions of the context, as the specification
  requires of them.
\<close>

fun fieldAttributes_loop ::
  "'v FieldAttributer list \<Rightarrow> 'v FieldContext \<Rightarrow> 'v config \<times> Attribute list
     \<Rightarrow> 'v config \<times> Attribute list" where
  "fieldAttributes_loop [] ctx (c, attrs) = (c, attrs)"
| "fieldAttributes_loop (produce # rest) ctx (c, attrs) =
     fieldAttributes_loop rest ctx (c, attrs @ produce ctx)"

definition fieldAttributes_call ::
  "'v config \<Rightarrow> 'v FieldContext \<Rightarrow> 'v config \<times> Attribute list" where
  "fieldAttributes_call c ctx = fieldAttributes_loop (fieldAttributers c) ctx (c, [])"

definition fieldAttributes :: "'v config \<Rightarrow> 'v FieldContext \<Rightarrow> Attribute list" where
  "fieldAttributes c ctx = snd (fieldAttributes_call c ctx)"

fun operationAttributes_loop ::
  "'v OperationAttributer list \<Rightarrow> 'v OperationContext \<Rightarrow> 'v config \<times> Attribute list
     \<Rightarrow> 'v config \<times> Attribute list" where
  "operationAttributes_loop [] ctx (c, attrs) = (c, attrs)"
| "operationAttributes_loop (produce # rest) ctx (c, attrs) =
     operationAttributes_loop rest ctx (c, attrs @ produce ctx)"

definition operationAttributes_call ::
  "'v config \<Rightarrow> 'v OperationContext \<Rightarrow> 'v config \<times> Attribute list" where
  "operationAttributes_call c ctx =
     operationAttributes_loop (operationAttributers c) ctx (c, [])"

definition operationAttributes :: "'v config \<Rightarrow> 'v OperationContext \<Rightarrow> Attribute list" where
  "operationAttributes c ctx = snd (operationAttributes_call c ctx)"

section \<open>The default tracer\<close>

text \<open>
  Modelled from the spec: the struct \<open>Tracer\<close> is declared outside \<open>options.go\<close>; of its
  fields, \<open>options.go\<close> sets the configuration only.
\<close>

record 'v Tracer =
  tracer_config :: "'v config"

definition defaultTracer :: "'v Tracer" where
  "defaultTracer =
     \<lparr>tracer_config =
        \<lparr>fieldAttributers =
           [\<lambda>fc. [StringAttribute ''server'' ''gqlgen'',
                  StringAttribute ''field'' (field_Name (Field fc))]],
         operationAttributers =
           [\<lambda>oc. [StringAttribute ''server'' ''gqlgen'',
                  StringAttribute ''operation'' (operationName oc)]],
         onlyMethods = True\<rparr>\<rparr>"

section \<open>Options\<close>

text \<open>
  \<open>json.Marshal\<close> belongs to the standard library. It returns a byte slice and an error;
  it is a parameter of the two options that call it. Bytes are characters here, and the
  conversion \<open>string(b)\<close> of a nil or empty slice is the empty string.
\<close>

datatype go_error = GoError string

type_synonym 'a Marshal = "'a \<Rightarrow> string \<times> go_error option"

definition WithFieldAttributes :: "'v FieldAttributer list \<Rightarrow> 'v Option" where
  "WithFieldAttributes attributers =
     (\<lambda>c. c\<lparr>fieldAttributers := fieldAttributers c @ attributers\<rparr>)"

definition WithOperationAttributes :: "'v OperationAttributer list \<Rightarrow> 'v Option" where
  "WithOperationAttributes attributers =
     (\<lambda>c. c\<lparr>operationAttributers := operationAttributers c @ attributers\<rparr>)"

definition WithDataDog :: "'v Option" where
  "WithDataDog =
     (\<lambda>c. c\<lparr>operationAttributers := operationAttributers c @
               [\<lambda>oc. [StringAttribute ''resource.name'' (operationName oc)]]\<rparr>)"

definition WithRawQuery :: "'v Option" where
  "WithRawQuery =
     (\<lambda>c. c\<lparr>operationAttributers := operationAttributers c @
               [\<lambda>oc. [StringAttribute ''query'' (RawQuery oc)]]\<rparr>)"

text \<open>\<open>variables, _ := json.Marshal(oc.Variables)\<close>: the error is dropped.\<close>

definition WithVariables :: "(string \<rightharpoonup> 'v) Marshal \<Rightarrow> 'v Option" where
  "WithVariables json_Marshal =
     (\<lambda>c. c\<lparr>operationAttributers := operationAttributers c @
               [\<lambda>oc. (let (variables, _) = json_Marshal (Variables oc)
                      in [StringAttribute ''variables'' variables])]\<rparr>)"

definition WithArgs :: "(string \<rightharpoonup> 'v) Marshal \<Rightarrow> 'v Option" where
  "WithArgs json_Marshal =
     (\<lambda>c. c\<lparr>fieldAttributers := fieldAttributers c @
               [\<lambda>fc. (let (args, _) = json_Marshal (Args fc)
                      in [StringAttribute ''args'' args])]\<rparr>)"

definition OnlyMethods :: "bool \<Rightarrow> 'v Option" where
  "OnlyMethods enabled = (\<lambda>c. c\<lparr>onlyMethods := enabled\<rparr>)"

text \<open>
  The type \<open>config\<close> is unexported, so every \<open>Option\<close> a caller holds comes from one of the
  seven functions above. \<open>OptionCall\<close> names the call that made it, and \<open>option_of\<close> is the
  option the call returns.
\<close>

datatype 'v OptionCall =
    CallWithFieldAttributes "'v FieldAttributer list"
  | CallWithOperationAttributes "'v OperationAttributer list"
  | CallWithDataDog
  | CallWithRawQuery
  | CallWithVariables
  | CallWithArgs
  | CallOnlyMethods bool

fun option_of :: "(string \<rightharpoonup> 'v) Marshal \<Rightarrow> 'v OptionCall \<Rightarrow> 'v Option" where
  "option_of m (CallWithFieldAttributes attributers) = WithFieldAttributes attributers"
| "option_of m (CallWithOperationAttributes attributers) = WithOperationAttributes attributers"
| "option_of m CallWithDataDog = WithDataDog"
| "option_of m CallWithRawQuery = WithRawQuery"
| "option_of m CallWithVariables = WithVariables m"
| "option_of m CallWithArgs = WithArgs m"
| "option_of m (CallOnlyMethods enabled) = OnlyMethods enabled"

fun is_OnlyMethods :: "'v OptionCall \<Rightarrow> bool" where
  "is_OnlyMethods (CallOnlyMethods enabled) = True"
| "is_OnlyMethods other = False"

text \<open>
  Modelled from the spec: the constructor \<open>New\<close> is outside \<open>options.go\<close>. It starts from
  the default tracer and applies the modifiers to its configuration strictly in the order
  supplied by the caller, each one seeing the state left by the ones before it.
\<close>

fun apply_options :: "'v Option list \<Rightarrow> 'v config \<Rightarrow> 'v config" where
  "apply_options [] c = c"
| "apply_options (opt # opts) c = apply_options opts (opt c)"

definition New :: "'v Option list \<Rightarrow> 'v Tracer" where
  "New opts =
     (let t = defaultTracer in t\<lparr>tracer_config := apply_options opts (tracer_config t)\<rparr>)"


section \<open>Producers with effects\<close>

text \<open>
  A \<open>FieldAttributer\<close> or \<open>OperationAttributer\<close> is any Go closure of the right signature:
  \<open>WithFieldAttributes\<close> and \<open>WithOperationAttributes\<close> take what the caller passes, and a
  closure may read and update variables it captures. Here \<open>'s\<close> is the state of those
  variables: a producer takes the context and the state, and returns its attributes and the
  state it leaves. The configuration holds such producers.
\<close>

type_synonym ('v, 's) FieldClosure = "'v FieldContext \<Rightarrow> 's \<Rightarrow> Attribute list \<times> 's"

type_synonym ('v, 's) OperationClosure = "'v OperationContext \<Rightarrow> 's \<Rightarrow> Attribute list \<times> 's"

record ('v, 's) config_st =
  fieldAttributers_st :: "('v, 's) FieldClosure list"
  operationAttributers_st :: "('v, 's) OperationClosure list"
  onlyMethods_st :: bool






definition WithOperationAttributes_st ::
  "('v, 's) OperationClosure list \<Rightarrow> ('v, 's) config_st \<Rightarrow> ('v, 's) config_st" where
  "WithOperationAttributes_st attributers =
     (\<lambda>c. c\<lparr>operationAttributers_st := operationAttributers_st c @ attributers\<rparr>)"





section \<open>Lemmas on the loops\<close>

text \<open>
  The loop invariant of both composers: the receiver is never assigned, and \<open>attrs\<close> grows
  by the outputs of the producers visited so far, in their order.
\<close>

lemma fieldAttributes_loop_append:
  "fieldAttributes_loop ps ctx (c, attrs) = (c, attrs @ concat (map (\<lambda>p. p ctx) ps))"
  by (induction ps arbitrary: attrs) simp_all

lemma operationAttributes_loop_append:
  "operationAttributes_loop ps ctx (c, attrs) = (c, attrs @ concat (map (\<lambda>p. p ctx) ps))"
  by (induction ps arbitrary: attrs) simp_all

lemma fieldAttributes_call_eq:
  "fieldAttributes_call c ctx = (c, concat (map (\<lambda>p. p ctx) (fieldAttributers c)))"
  by (simp add: fieldAttributes_call_def fieldAttributes_loop_append)

lemma operationAttributes_call_eq:
  "operationAttributes_call c ctx = (c, concat (map (\<lambda>p. p ctx) (operationAttributers c)))"
  by (simp add: operationAttributes_call_def operationAttributes_loop_append)

lemma fieldAttributes_eq:
  "fieldAttributes c ctx = concat (map (\<lambda>p. p ctx) (fieldAttributers c))"
  by (simp add: fieldAttributes_def fieldAttributes_call_eq)

lemma operationAttributes_eq:
  "operationAttributes c ctx = concat (map (\<lambda>p. p ctx) (operationAttributers c))"
  by (simp add: operationAttributes_def operationAttributes_call_eq)

text \<open>Applying a list of options, and what the options other than \<open>OnlyMethods\<close> keep.\<close>

lemma apply_options_append:
  "apply_options (xs @ ys) c = apply_options ys (apply_options xs c)"
  by (induction xs arbitrary: c) simp_all

lemma other_option_keeps_flag:
  "\<not> is_OnlyMethods call \<Longrightarrow> onlyMethods (option_of m call c) = onlyMethods c"
  by (cases call)
     (simp_all add: WithFieldAttributes_def WithOperationAttributes_def WithDataDog_def
        WithRawQuery_def WithVariables_def WithArgs_def)

lemma other_options_keep_flag:
  "\<forall>call \<in> set calls. \<not> is_OnlyMethods call \<Longrightarrow>
   onlyMethods (apply_options (map (option_of m) calls) c) = onlyMethods c"
  by (induction calls arbitrary: c) (simp_all add: other_option_keeps_flag)







section \<open>Theorems\<close>

text \<open>
  C1. The operation-name resolver follows the ordered fallback chain in which the first
  non-empty candidate wins: the explicit name of the parsed node, then the node's operation
  kind, then the raw operation name of the context (the empty string when that is empty
  too). A node named GetUser gives GetUser; a node with an empty name and kind mutation
  gives mutation; no node and raw name Ping gives Ping; no node and an empty raw name gives
  the empty string.
\<close>

theorem operationName_fallback_chain:
  "operationName ctx = first_non_empty (name_candidates ctx)
   \<and> operationName \<lparr>RawQuery = q, Variables = vs, OperationName = raw,
        Operation = Some \<lparr>opdef_Operation = kind, opdef_Name = ''GetUser''\<rparr>\<rparr> = ''GetUser''
   \<and> operationName \<lparr>RawQuery = q, Variables = vs, OperationName = raw,
        Operation = Some \<lparr>opdef_Operation = ''mutation'', opdef_Name = []\<rparr>\<rparr> = ''mutation''
   \<and> operationName \<lparr>RawQuery = q, Variables = vs, OperationName = ''Ping'',
        Operation = None\<rparr> = ''Ping''
   \<and> operationName \<lparr>RawQuery = q, Variables = vs, OperationName = [],
        Operation = None\<rparr> = []"
  by (simp add: operationName_def name_candidates_def split: option.split)

text \<open>
  C2. For every configuration and every field context, the field-attribute composer returns
  exactly the concatenation of the outputs of the registered field producers, in the order
  of registration: nothing is interleaved, dropped or deduplicated. The same holds for the
  operation-attribute composer over the operation producers and an operation context.
\<close>

theorem composer_concatenates_in_order:
  "fieldAttributes c fc = concat (map (\<lambda>p. p fc) (fieldAttributers c))
   \<and> operationAttributes c oc = concat (map (\<lambda>p. p oc) (operationAttributers c))"
  by (simp add: fieldAttributes_eq operationAttributes_eq)

text \<open>
  C3. The producers appended by \<open>WithArgs\<close> and \<open>WithVariables\<close> never fail. Whatever
  \<open>json.Marshal\<close> returns, the producer returns one string attribute, with key args or
  variables, whose value is the bytes that \<open>json.Marshal\<close> returned, and the composer returns
  what it returned before followed by that attribute. When \<open>json.Marshal\<close> fails, that is
  returns nil bytes and an error, the value is the empty string; the error reaches neither
  the composer nor the caller.
\<close>

theorem marshal_producers_never_fail:
  "last (fieldAttributers (WithArgs m c)) fc = [StringAttribute ''args'' (fst (m (Args fc)))]
   \<and> last (operationAttributers (WithVariables m c)) oc =
       [StringAttribute ''variables'' (fst (m (Variables oc)))]
   \<and> map attribute_key (last (fieldAttributers (WithArgs m c)) fc) = [''args'']
   \<and> map attribute_key (last (operationAttributers (WithVariables m c)) oc) = [''variables'']
   \<and> fieldAttributes (WithArgs m c) fc =
       fieldAttributes c fc @ [StringAttribute ''args'' (fst (m (Args fc)))]
   \<and> operationAttributes (WithVariables m c) oc =
       operationAttributes c oc @ [StringAttribute ''variables'' (fst (m (Variables oc)))]
   \<and> (m (Args fc) = ([], Some e) \<longrightarrow>
        last (fieldAttributers (WithArgs m c)) fc = [StringAttribute ''args'' []])
   \<and> (m (Variables oc) = ([], Some e') \<longrightarrow>
        last (operationAttributers (WithVariables m c)) oc = [StringAttribute ''variables'' []])"
  by (simp add: WithArgs_def WithVariables_def fieldAttributes_eq operationAttributes_eq
      split: prod.split)

text \<open>
  The theorem at a \<open>json.Marshal\<close> that fails on the binding \<open>c\<close>, on the default
  configuration: the attribute is there, with an empty value.
\<close>

theorem marshal_producers_never_fail_witness:
  "(\<lambda>vs. case vs ''c'' of None \<Rightarrow> (''{}'', None)
           | Some (v::nat) \<Rightarrow> ([], Some (GoError ''json: unsupported type'')))
      (Args \<lparr>Field = \<lparr>field_Name = ''user''\<rparr>, Args = [''c'' \<mapsto> 0]\<rparr>)
     = ([], Some (GoError ''json: unsupported type''))
   \<and> fieldAttributes
       (WithArgs (\<lambda>vs. case vs ''c'' of None \<Rightarrow> (''{}'', None)
                    | Some (v::nat) \<Rightarrow> ([], Some (GoError ''json: unsupported type'')))
          (tracer_config defaultTracer))
       \<lparr>Field = \<lparr>field_Name = ''user''\<rparr>, Args = [''c'' \<mapsto> 0]\<rparr>
     = [StringAttribute ''server'' ''gqlgen'', StringAttribute ''field'' ''user'',
        StringAttribute ''args'' []]
   \<and> operationAttributes
       (WithVariables (\<lambda>vs. case vs ''c'' of None \<Rightarrow> (''{}'', None)
                    | Some (v::nat) \<Rightarrow> ([], Some (GoError ''json: unsupported type'')))
          (tracer_config defaultTracer))
       \<lparr>RawQuery = ''{ user }'', Variables = [''c'' \<mapsto> 0], OperationName = ''Ping'',
          Operation = None\<rparr>
     = [StringAttribute ''server'' ''gqlgen'', StringAttribute ''operation'' ''Ping'',
        StringAttribute ''variables'' []]"
  using marshal_producers_never_fail
    [of "\<lambda>vs. case vs ''c'' of None \<Rightarrow> (''{}'', None)
           | Some (v::nat) \<Rightarrow> ([], Some (GoError ''json: unsupported type''))"
        "tracer_config defaultTracer"
        "\<lparr>Field = \<lparr>field_Name = ''user''\<rparr>, Args = [''c'' \<mapsto> 0]\<rparr>"
        "\<lparr>RawQuery = ''{ user }'', Variables = [''c'' \<mapsto> 0], OperationName = ''Ping'',
          Operation = None\<rparr>"
        "GoError ''json: unsupported type''" "GoError ''json: unsupported type''"]
  by (simp add: fieldAttributes_eq operationAttributes_eq defaultTracer_def operationName_def)

text \<open>
  C4. For every field context, the field attributes of the default configuration are exactly
  two: the pair server/gqlgen, then the attribute field carrying the name of the field.
\<close>

theorem default_field_attributes:
  "fieldAttributes (tracer_config defaultTracer) fc =
     [StringAttribute ''server'' ''gqlgen'', StringAttribute ''field'' (field_Name (Field fc))]"
  by (simp add: fieldAttributes_eq defaultTracer_def)

text \<open>
  C5. For every operation context, the operation attributes of the default configuration are
  exactly two: the pair server/gqlgen, then the attribute operation whose value is what
  \<open>operationName\<close> returns on that context.
\<close>

theorem default_operation_attributes:
  "operationAttributes (tracer_config defaultTracer) oc =
     [StringAttribute ''server'' ''gqlgen'', StringAttribute ''operation'' (operationName oc)]"
  by (simp add: operationAttributes_eq defaultTracer_def)

text \<open>
  C6. In any sequence of options, the only-methods flag of the resulting configuration is
  the argument of the last \<open>OnlyMethods\<close> applied: whatever options come before it (other
  applications of \<open>OnlyMethods\<close> among them) and whatever other options come after it.
\<close>

theorem last_OnlyMethods_wins:
  assumes "\<forall>call \<in> set post. \<not> is_OnlyMethods call"
  shows "onlyMethods
           (apply_options (map (option_of m) (pre @ CallOnlyMethods enabled # post)) c)
         = enabled"
proof -
  have "onlyMethods
          (apply_options (map (option_of m) (pre @ CallOnlyMethods enabled # post)) c)
        = onlyMethods (OnlyMethods enabled (apply_options (map (option_of m) pre) c))"
    using assms by (simp add: apply_options_append other_options_keep_flag)
  then show ?thesis by (simp add: OnlyMethods_def)
qed

theorem last_OnlyMethods_wins_witness:
  "list_all (\<lambda>call. \<not> is_OnlyMethods call)
     [CallWithRawQuery, CallWithFieldAttributes [FieldAttribute ''host'' ''mypod''],
      CallWithArgs :: nat OptionCall]
   \<and> onlyMethods
       (apply_options
          (map (option_of (\<lambda>vs. (''{}'', None)))
             [CallOnlyMethods True, CallWithDataDog, CallOnlyMethods False, CallOnlyMethods True,
              CallOnlyMethods False,
              CallWithRawQuery, CallWithFieldAttributes [FieldAttribute ''host'' ''mypod''],
              CallWithArgs :: nat OptionCall])
          (tracer_config defaultTracer))
     = False"
  using last_OnlyMethods_wins
    [of "[CallWithRawQuery, CallWithFieldAttributes [FieldAttribute ''host'' ''mypod''],
          CallWithArgs :: nat OptionCall]"
        "\<lambda>vs. (''{}'', None)"
        "[CallOnlyMethods True, CallWithDataDog, CallOnlyMethods False, CallOnlyMethods True]"
        False "tracer_config defaultTracer"]
  by simp

text \<open>
  C7. Constructing the adapter with no option gives the default: \<open>New\<close> on the empty list is
  the default tracer, whose configuration holds one field producer, one operation producer
  and the only-methods flag set, and whose attribute outputs are those of the default
  configuration on every context.
\<close>

theorem New_without_options_is_default:
  "(New [] :: 'v Tracer) = defaultTracer
   \<and> length (fieldAttributers (tracer_config (New [] :: 'v Tracer))) = 1
   \<and> length (operationAttributers (tracer_config (New [] :: 'v Tracer))) = 1
   \<and> onlyMethods (tracer_config (New [] :: 'v Tracer)) = True
   \<and> fieldAttributes (tracer_config (New [])) (fc :: 'v FieldContext)
       = fieldAttributes (tracer_config defaultTracer) fc
   \<and> operationAttributes (tracer_config (New [])) (oc :: 'v OperationContext)
       = operationAttributes (tracer_config defaultTracer) oc"
proof -
  have new: "(New [] :: 'v Tracer) = defaultTracer"
    by (simp add: New_def)
  show ?thesis
    unfolding new by (simp add: defaultTracer_def)
qed

text \<open>
  C8. Every option touches one component of the configuration and leaves the other two as
  they were. \<open>WithFieldAttributes\<close> and \<open>WithArgs\<close> append to the field producers;
  \<open>WithOperationAttributes\<close>, \<open>WithDataDog\<close>, \<open>WithRawQuery\<close> and \<open>WithVariables\<close> append to
  the operation producers; \<open>OnlyMethods\<close> sets the flag. After an append, the producers
  registered before are still there, at the front and in their order.
\<close>

theorem options_change_one_component:
  "fieldAttributers (WithFieldAttributes fas c) = fieldAttributers c @ fas
   \<and> operationAttributers (WithFieldAttributes fas c) = operationAttributers c
   \<and> onlyMethods (WithFieldAttributes fas c) = onlyMethods c
   \<and> (\<exists>p. fieldAttributers (WithArgs m c) = fieldAttributers c @ [p])
   \<and> operationAttributers (WithArgs m c) = operationAttributers c
   \<and> onlyMethods (WithArgs m c) = onlyMethods c
   \<and> operationAttributers (WithOperationAttributes oas c) = operationAttributers c @ oas
   \<and> fieldAttributers (WithOperationAttributes oas c) = fieldAttributers c
   \<and> onlyMethods (WithOperationAttributes oas c) = onlyMethods c
   \<and> (\<exists>p. operationAttributers (WithDataDog c) = operationAttributers c @ [p])
   \<and> fieldAttributers (WithDataDog c) = fieldAttributers c
   \<and> onlyMethods (WithDataDog c) = onlyMethods c
   \<and> (\<exists>p. operationAttributers (WithRawQuery c) = operationAttributers c @ [p])
   \<and> fieldAttributers (WithRawQuery c) = fieldAttributers c
   \<and> onlyMethods (WithRawQuery c) = onlyMethods c
   \<and> (\<exists>p. operationAttributers (WithVariables m c) = operationAttributers c @ [p])
   \<and> fieldAttributers (WithVariables m c) = fieldAttributers c
   \<and> onlyMethods (WithVariables m c) = onlyMethods c
   \<and> onlyMethods (OnlyMethods enabled c) = enabled
   \<and> fieldAttributers (OnlyMethods enabled c) = fieldAttributers c
   \<and> operationAttributers (OnlyMethods enabled c) = operationAttributers c"
  by (simp add: WithFieldAttributes_def WithOperationAttributes_def WithDataDog_def
      WithRawQuery_def WithVariables_def WithArgs_def OnlyMethods_def)

text \<open>
  C9. On an operation context whose parsed node is present with an empty name, the resolver
  uses the node's kind only when the kind is not empty; when the kind is empty too, it
  returns the raw operation name of the context.
\<close>

theorem empty_kind_falls_back_to_raw_name:
  assumes "Operation ctx = Some node" and "opdef_Name node = []"
  shows "operationName ctx =
           (if opdef_Operation node = [] then OperationName ctx else opdef_Operation node)"
  using assms by (simp add: operationName_def)

theorem empty_kind_falls_back_to_raw_name_witness:
  "Operation \<lparr>RawQuery = ''{ me }'', Variables = (Map.empty :: string \<rightharpoonup> nat),
       OperationName = ''Ping'',
       Operation = Some \<lparr>opdef_Operation = [], opdef_Name = []\<rparr>\<rparr>
     = Some \<lparr>opdef_Operation = [], opdef_Name = []\<rparr>
   \<and> opdef_Name \<lparr>opdef_Operation = [], opdef_Name = []\<rparr> = []
   \<and> operationName \<lparr>RawQuery = ''{ me }'', Variables = (Map.empty :: string \<rightharpoonup> nat),
       OperationName = ''Ping'',
       Operation = Some \<lparr>opdef_Operation = [], opdef_Name = []\<rparr>\<rparr> = ''Ping''"
  using empty_kind_falls_back_to_raw_name
    [of "\<lparr>RawQuery = ''{ me }'', Variables = (Map.empty :: string \<rightharpoonup> nat),
          OperationName = ''Ping'',
          Operation = Some \<lparr>opdef_Operation = [], opdef_Name = []\<rparr>\<rparr>"
        "\<lparr>opdef_Operation = [], opdef_Name = []\<rparr>"]
  by simp




end
